theory Spec2Isabelle
  imports Main
begin

section \<open>Low-level discovery rules: the common CRUD layer (provider/common\_lld.go)\<close>

text \<open>
  The file embeds \<^verbatim>\<open>provider/common_lld.go\<close>: the builder that turns a Terraform
  configuration record into a Zabbix rule, the flattener that turns a rule back into
  configuration blocks, and the four lifecycle handlers. Go strings are byte lists
  (\<^typ>\<open>string\<close>); the two logging calls of the handlers have no effect on any value
  and are left out.
\<close>

subsection \<open>Package strings: Join and Split\<close>

text \<open>
  \<^verbatim>\<open>strings.Join(elems, sep)\<close>: nothing for no element, the element itself for one,
  otherwise the elements with \<open>sep\<close> between neighbours.
\<close>

fun Join :: "string list \<Rightarrow> string \<Rightarrow> string" where
  "Join [] sep = []"
| "Join [x] sep = x"
| "Join (x # y # ys) sep = x @ sep @ Join (y # ys) sep"

text \<open>\<^verbatim>\<open>strings.HasPrefix(s, prefix)\<close>.\<close>

fun HasPrefix :: "string \<Rightarrow> string \<Rightarrow> bool" where
  "HasPrefix s [] = True"
| "HasPrefix [] (p # ps) = False"
| "HasPrefix (c # cs) (p # ps) = (c = p \<and> HasPrefix cs ps)"

text \<open>
  \<^verbatim>\<open>strings.Index(s, substr)\<close>: the position of the first occurrence of \<open>substr\<close> in
  \<open>s\<close>; Go's \<open>-1\<close> is \<open>None\<close>.
\<close>

fun Index :: "string \<Rightarrow> string \<Rightarrow> nat option" where
  "Index [] sub = (if sub = [] then Some 0 else None)"
| "Index (c # cs) sub =
     (if HasPrefix (c # cs) sub then Some 0 else map_option Suc (Index cs sub))"

text \<open>
  \<^verbatim>\<open>strings.Split(s, sep)\<close> (\<^verbatim>\<open>genSplit(s, sep, 0, -1)\<close>): with an empty separator the
  string is exploded into its characters; otherwise the loop cuts \<open>s\<close> at the first
  occurrence of \<open>sep\<close>, keeps the part before it and goes on with the part after it,
  and the rest of the string is the last piece.
\<close>

function Split :: "string \<Rightarrow> string \<Rightarrow> string list" where
  "Split s sep =
     (if sep = [] then map (\<lambda>c. [c]) s
      else (case Index s sep of
              None \<Rightarrow> [s]
            | Some m \<Rightarrow> take m s # Split (drop (m + length sep) s) sep))"
  by pat_completeness auto
termination
proof (relation "measure (\<lambda>(s, sep). length s)")
  show "wf (measure (\<lambda>(s, sep). length s))" by simp
next
  fix s sep :: string and m :: nat
  assume sep: "sep \<noteq> []" and idx: "Index s sep = Some m"
  have pre: "HasPrefix t p \<Longrightarrow> length p \<le> length t" for t p
    by (induction t p rule: HasPrefix.induct) auto
  have bound: "Index t sep = Some k \<Longrightarrow> k + length sep \<le> length t" for t k
  proof (induction t arbitrary: k)
    case Nil
    then show ?case by (simp split: if_splits)
  next
    case (Cons c cs)
    show ?case
    proof (cases "HasPrefix (c # cs) sep")
      case True
      with Cons.prems pre [of "c # cs" sep] show ?thesis by simp
    next
      case False
      with Cons.prems obtain j where "Index cs sep = Some j" and "k = Suc j"
        by auto
      with Cons.IH [of j] show ?thesis by simp
    qed
  qed
  from sep have "0 < length sep" by simp
  with bound [OF idx] have "length s - (m + length sep) < length s"
    by linarith
  then show "((drop (m + length sep) s, sep), (s, sep)) \<in> measure (\<lambda>(s, sep). length s)"
    by simp
qed

declare Split.simps [simp del]

subsection \<open>Data\<close>

text \<open>
  One \<^verbatim>\<open>preprocessor\<close> block of the configuration, as \<^verbatim>\<open>lldPreprocessorSchema\<close>
  declares it: a computed \<^verbatim>\<open>id\<close>, \<^verbatim>\<open>type\<close>, the list \<^verbatim>\<open>params\<close>,
  \<^verbatim>\<open>error_handler\<close> and \<^verbatim>\<open>error_handler_params\<close>.
\<close>

record pp_block =
  pp_id :: string
  pp_type :: string
  pp_params :: "string list"
  pp_error_handler :: string
  pp_error_handler_params :: string

text \<open>
  \<^verbatim>\<open>*schema.ResourceData\<close>: the identifier behind \<^verbatim>\<open>d.Id()\<close> and \<^verbatim>\<open>d.SetId\<close>, and
  the attributes this file reads and writes. Attributes of a concrete rule type, which
  only the injected handlers touch, live in the extension part of the record.
\<close>

record ResourceData =
  rd_id :: string
  hostid :: string
  key :: string
  name :: string
  delay :: string
  preprocessor :: "pp_block list"

text \<open>\<^verbatim>\<open>zabbix.Preprocessor\<close> and the fields of \<^verbatim>\<open>zabbix.LLDRule\<close> used here; the
  struct's other fields are the extension part of the record.\<close>

record Preprocessor =
  Type :: string
  Params :: string
  ErrorHandler :: string
  ErrorHandlerParams :: string

record LLDRule =
  ItemID :: string
  Key :: string
  HostID :: string
  Name :: string
  Delay :: string
  Preprocessors :: "Preprocessor list"

text \<open>A value stored under a key of a \<^verbatim>\<open>map[string]interface{}\<close>: a string or a
  list of strings.\<close>

datatype tfvalue = TFString string | TFList "string list"

type_synonym tfmap = "string \<rightharpoonup> tfvalue"

subsection \<open>Reading the configuration\<close>

text \<open>
  \<^verbatim>\<open>d.Id()\<close>, \<^verbatim>\<open>d.SetId(v)\<close> and the typed reads \<^verbatim>\<open>d.Get(k).(T)\<close> the file makes.
  \<^verbatim>\<open>d.Get\<close> gives the zero value of the attribute's type where nothing is set, so a
  read of block \<open>i\<close> beyond the list gives the empty string or the empty list.

  The read of \<^verbatim>\<open>params\<close> is asserted to be a \<^verbatim>\<open>[]interface{}\<close> only: its elements are
  interface values, a string or \<^verbatim>\<open>nil\<close> (\<open>None\<close>). The framework hands an element
  that is the empty string over as \<^verbatim>\<open>nil\<close>.
\<close>

text \<open>A Go panic, by its message, and the panic of a failed assertion \<^verbatim>\<open>x.(string)\<close> on
  a \<^verbatim>\<open>nil\<close> interface.\<close>

datatype go_panic = Panic string

definition nil_not_string :: go_panic where
  "nil_not_string = Panic ''interface conversion: interface {} is nil, not string''"

definition interface_of :: "string \<Rightarrow> string option" where
  "interface_of v = (if v = [] then None else Some v)"

definition Id_of :: "'a ResourceData_scheme \<Rightarrow> string" where
  "Id_of d = rd_id d"

definition SetId :: "string \<Rightarrow> 'a ResourceData_scheme \<Rightarrow> 'a ResourceData_scheme" where
  "SetId v d = d\<lparr>rd_id := v\<rparr>"

definition Get_preprocessor_count :: "'a ResourceData_scheme \<Rightarrow> nat" where
  "Get_preprocessor_count d = length (preprocessor d)"

definition Get_pp_params :: "'a ResourceData_scheme \<Rightarrow> nat \<Rightarrow> string option list" where
  "Get_pp_params d i =
     (if i < length (preprocessor d)
      then map interface_of (pp_params (preprocessor d ! i)) else [])"

definition Get_pp_type :: "'a ResourceData_scheme \<Rightarrow> nat \<Rightarrow> string" where
  "Get_pp_type d i =
     (if i < length (preprocessor d) then pp_type (preprocessor d ! i) else [])"

definition Get_pp_error_handler :: "'a ResourceData_scheme \<Rightarrow> nat \<Rightarrow> string" where
  "Get_pp_error_handler d i =
     (if i < length (preprocessor d) then pp_error_handler (preprocessor d ! i) else [])"

definition Get_pp_error_handler_params :: "'a ResourceData_scheme \<Rightarrow> nat \<Rightarrow> string" where
  "Get_pp_error_handler_params d i =
     (if i < length (preprocessor d)
      then pp_error_handler_params (preprocessor d ! i) else [])"

subsection \<open>lldGeneratePreprocessors\<close>

text \<open>The separator of the wire format, the Go literal \<^verbatim>\<open>"\n"\<close>.\<close>

definition newline :: string where
  "newline = [CHR 0x0A]"

text \<open>
  The inner loop copies \<^verbatim>\<open>params[i].(string)\<close> into \<^verbatim>\<open>pstrarr[i]\<close>, a slice made with
  the length of \<^verbatim>\<open>params\<close> and holding empty strings. The assertion has no second
  result, so it panics on an element that is not a string, and the loop ends there.
\<close>

function pstrarr_loop ::
  "string option list \<Rightarrow> nat \<Rightarrow> string list \<Rightarrow> go_panic + string list" where
  "pstrarr_loop params i pstrarr =
     (if i < length params
      then (case params ! i of
              None \<Rightarrow> Inl nil_not_string
            | Some v \<Rightarrow> pstrarr_loop params (Suc i) (pstrarr[i := v]))
      else Inr pstrarr)"
  by pat_completeness auto
termination
  by (relation "measure (\<lambda>(params, i, pstrarr). length params - i)") auto

declare pstrarr_loop.simps [simp del]

text \<open>The preprocessor that one pass of the outer loop stores at index \<open>i\<close>, or the
  panic of its inner loop.\<close>

definition generate_one :: "'a ResourceData_scheme \<Rightarrow> nat \<Rightarrow> go_panic + Preprocessor" where
  "generate_one d i =
     (let params = Get_pp_params d i
      in case pstrarr_loop params 0 (replicate (length params) []) of
           Inl p \<Rightarrow> Inl p
         | Inr pstrarr \<Rightarrow>
             Inr \<lparr>Type = Get_pp_type d i,
                  Params = Join pstrarr newline,
                  ErrorHandler = Get_pp_error_handler d i,
                  ErrorHandlerParams = Get_pp_error_handler_params d i\<rparr>)"

text \<open>The zero value of \<^verbatim>\<open>zabbix.Preprocessor\<close>, which \<^verbatim>\<open>make\<close> fills the slice with.\<close>

definition zero_Preprocessor :: Preprocessor where
  "zero_Preprocessor = \<lparr>Type = [], Params = [], ErrorHandler = [], ErrorHandlerParams = []\<rparr>"

function generate_loop ::
  "'a ResourceData_scheme \<Rightarrow> nat \<Rightarrow> nat \<Rightarrow> Preprocessor list \<Rightarrow>
   go_panic + Preprocessor list" where
  "generate_loop d preprocessorCount i preprocessors =
     (if i < preprocessorCount
      then (case generate_one d i of
              Inl p \<Rightarrow> Inl p
            | Inr x \<Rightarrow> generate_loop d preprocessorCount (Suc i) (preprocessors[i := x]))
      else Inr preprocessors)"
  by pat_completeness auto
termination
  by (relation "measure (\<lambda>(d, n, i, ps). n - i)") auto

declare generate_loop.simps [simp del]

definition lldGeneratePreprocessors ::
  "'a ResourceData_scheme \<Rightarrow> go_panic + Preprocessor list" where
  "lldGeneratePreprocessors d =
     (let preprocessorCount = Get_preprocessor_count d
      in generate_loop d preprocessorCount 0 (replicate preprocessorCount zero_Preprocessor))"

subsection \<open>buildLLDObject\<close>

text \<open>
  The struct literal sets four fields and leaves the others at their zero values: the
  empty \<^verbatim>\<open>ItemID\<close>, no preprocessors, and \<open>z\<close> for the fields of the library's struct
  that this file never names. Then the preprocessors are assigned, unless generating
  them panics.
\<close>

definition buildLLDObject ::
  "'x \<Rightarrow> 'a ResourceData_scheme \<Rightarrow> go_panic + 'x LLDRule_scheme" where
  "buildLLDObject z d =
     (let lld = \<lparr>ItemID = [], Key = key d, HostID = hostid d, Name = name d,
                 Delay = delay d, Preprocessors = [], \<dots> = z\<rparr>
      in case lldGeneratePreprocessors d of
           Inl p \<Rightarrow> Inl p
         | Inr preprocessors \<Rightarrow> Inr (lld\<lparr>Preprocessors := preprocessors\<rparr>))"

subsection \<open>flattenlldPreprocessors\<close>

definition flatten_one :: "Preprocessor \<Rightarrow> tfmap" where
  "flatten_one p =
     (let parr = Split (Params p) newline
      in [''type'' \<mapsto> TFString (Type p),
          ''params'' \<mapsto> TFList parr,
          ''error_handler'' \<mapsto> TFString (ErrorHandler p),
          ''error_handler_params'' \<mapsto> TFString (ErrorHandlerParams p)])"

text \<open>\<^verbatim>\<open>val\<close> is made with the length of the preprocessors and holds \<^verbatim>\<open>nil\<close>, here the
  empty map, until the loop stores entry \<open>i\<close>.\<close>

function flatten_loop :: "Preprocessor list \<Rightarrow> nat \<Rightarrow> tfmap list \<Rightarrow> tfmap list" where
  "flatten_loop ps i val =
     (if i < length ps then flatten_loop ps (Suc i) (val[i := flatten_one (ps ! i)])
      else val)"
  by pat_completeness auto
termination
  by (relation "measure (\<lambda>(ps, i, val). length ps - i)") auto

declare flatten_loop.simps [simp del]

definition flattenlldPreprocessors :: "'x LLDRule_scheme \<Rightarrow> tfmap list" where
  "flattenlldPreprocessors lld =
     flatten_loop (Preprocessors lld) 0 (replicate (length (Preprocessors lld)) Map.empty)"

subsection \<open>Schemas\<close>

text \<open>
  What a \<^verbatim>\<open>schema.Schema\<close> literal of this file can set. A validation function is a
  predicate on the string: true where the Go function reports no error.
\<close>

datatype ValueType = TypeString | TypeList

record Schema =
  schType :: ValueType
  schRequired :: bool
  schOptional :: bool
  schForceNew :: bool
  schComputed :: bool
  schDefault :: "string option"
  schDescription :: string
  schValidateFunc :: "(string \<Rightarrow> bool) option"

text \<open>A schema literal that sets nothing but the type.\<close>

definition schema_of :: "ValueType \<Rightarrow> Schema" where
  "schema_of t =
     \<lparr>schType = t, schRequired = False, schOptional = False, schForceNew = False,
      schComputed = False, schDefault = None, schDescription = [], schValidateFunc = None\<rparr>"

text \<open>
  \<^verbatim>\<open>validation.StringMatch(regexp.MustCompile("^[0-9]+$"), ...)\<close>: without the
  multi-line flag \<^verbatim>\<open>$\<close> is the end of the text, so the string is one or more digits.
\<close>

definition StringMatch_numeric :: "string \<Rightarrow> bool" where
  "StringMatch_numeric v = (v \<noteq> [] \<and> list_all (\<lambda>c. c \<in> set ''0123456789'') v)"

text \<open>
  \<^verbatim>\<open>validation.StringIsNotWhiteSpace\<close> rejects a string that \<^verbatim>\<open>strings.TrimSpace\<close>
  empties, that is, a string made of white space only. Go's white space is Unicode's:
  the six ASCII characters, U+0085, U+00A0, U+1680, U+2000 to U+200A, U+2028, U+2029,
  U+202F, U+205F and U+3000. A Go string holds them in UTF-8, listed here byte by
  byte; a byte that begins none of them is not white space.
\<close>

definition space_runes :: "string list" where
  "space_runes =
     [[CHR 0x09], [CHR 0x0A], [CHR 0x0B], [CHR 0x0C], [CHR 0x0D], [CHR 0x20],
      [CHR 0xC2, CHR 0x85], [CHR 0xC2, CHR 0xA0], [CHR 0xE1, CHR 0x9A, CHR 0x80],
      [CHR 0xE2, CHR 0x80, CHR 0x80], [CHR 0xE2, CHR 0x80, CHR 0x81],
      [CHR 0xE2, CHR 0x80, CHR 0x82], [CHR 0xE2, CHR 0x80, CHR 0x83],
      [CHR 0xE2, CHR 0x80, CHR 0x84], [CHR 0xE2, CHR 0x80, CHR 0x85],
      [CHR 0xE2, CHR 0x80, CHR 0x86], [CHR 0xE2, CHR 0x80, CHR 0x87],
      [CHR 0xE2, CHR 0x80, CHR 0x88], [CHR 0xE2, CHR 0x80, CHR 0x89],
      [CHR 0xE2, CHR 0x80, CHR 0x8A], [CHR 0xE2, CHR 0x80, CHR 0xA8],
      [CHR 0xE2, CHR 0x80, CHR 0xA9], [CHR 0xE2, CHR 0x80, CHR 0xAF],
      [CHR 0xE2, CHR 0x81, CHR 0x9F], [CHR 0xE3, CHR 0x80, CHR 0x80]]"

text \<open>What is left of \<open>s\<close> after the first of the \<open>runes\<close> that it begins with, if there
  is one.\<close>

fun strip_rune :: "string list \<Rightarrow> string \<Rightarrow> string option" where
  "strip_rune [] s = None"
| "strip_rune (r # runes) s =
     (if HasPrefix s r then Some (drop (length r) s) else strip_rune runes s)"

text \<open>\<^verbatim>\<open>strings.TrimSpace(s) == ""\<close>: the string is white space from end to end.\<close>

function all_space :: "string \<Rightarrow> bool" where
  "all_space s =
     (if s = [] then True
      else (case strip_rune space_runes s of
              None \<Rightarrow> False
            | Some rest \<Rightarrow> all_space rest))"
  by pat_completeness auto
termination
proof (relation "measure length")
  show "wf (measure length)" by simp
next
  fix s rest :: string
  assume s: "s \<noteq> []" and strip: "strip_rune space_runes s = Some rest"
  have shorter: "strip_rune runes s = Some t \<Longrightarrow> [] \<notin> set runes \<Longrightarrow> length t < length s"
    for runes t
    using s by (induction runes) (auto split: if_splits)
  have "[] \<notin> set space_runes"
    by (simp add: space_runes_def)
  with shorter [OF strip] show "(rest, s) \<in> measure length"
    by simp
qed

declare all_space.simps [simp del]

definition StringIsNotWhiteSpace :: "string \<Rightarrow> bool" where
  "StringIsNotWhiteSpace v = (\<not> all_space v)"

definition lldCommonSchema :: "string \<rightharpoonup> Schema" where
  "lldCommonSchema =
     [''hostid'' \<mapsto> (schema_of TypeString)
        \<lparr>schRequired := True, schForceNew := True, schDescription := ''Host ID'',
         schValidateFunc := Some StringMatch_numeric\<rparr>,
      ''delay'' \<mapsto> (schema_of TypeString)
        \<lparr>schOptional := True, schValidateFunc := Some StringIsNotWhiteSpace,
         schDefault := Some ''3600'', schDescription := ''LLD Delay period''\<rparr>,
      ''key'' \<mapsto> (schema_of TypeString)
        \<lparr>schDescription := ''LLD KEY'', schValidateFunc := Some StringIsNotWhiteSpace,
         schRequired := True\<rparr>,
      ''name'' \<mapsto> (schema_of TypeString)
        \<lparr>schDescription := ''LLD Name'', schValidateFunc := Some StringIsNotWhiteSpace,
         schRequired := True\<rparr>]"

definition lldInterfaceSchema :: "string \<rightharpoonup> Schema" where
  "lldInterfaceSchema =
     [''interfaceid'' \<mapsto> (schema_of TypeString)
        \<lparr>schOptional := True, schDescription := ''Host Interface ID'',
         schDefault := Some ''0''\<rparr>]"

text \<open>The schema of one \<^verbatim>\<open>preprocessor\<close> block (\<^verbatim>\<open>lldPreprocessorSchema.Elem\<close>); the
  entry for \<^verbatim>\<open>params\<close> carries the validation of its element schema.\<close>

definition lldPreprocessorSchema :: "string \<rightharpoonup> Schema" where
  "lldPreprocessorSchema =
     [''id'' \<mapsto> (schema_of TypeString)\<lparr>schComputed := True\<rparr>,
      ''type'' \<mapsto> (schema_of TypeString)
        \<lparr>schRequired := True,
         schDescription := ''Preprocessor type, zabbix identifier number'',
         schValidateFunc := Some StringMatch_numeric\<rparr>,
      ''params'' \<mapsto> (schema_of TypeList)
        \<lparr>schValidateFunc := Some StringIsNotWhiteSpace, schOptional := True,
         schDescription := ''Preprocessor parameters''\<rparr>,
      ''error_handler'' \<mapsto> (schema_of TypeString)
        \<lparr>schOptional := True, schDefault := Some []\<rparr>,
      ''error_handler_params'' \<mapsto> (schema_of TypeString)
        \<lparr>schOptional := True, schDefault := Some []\<rparr>]"

text \<open>A value passes the entry of a schema when the entry's validation function, if
  there is one, accepts it.\<close>

definition validates :: "(string \<rightharpoonup> Schema) \<Rightarrow> string \<Rightarrow> string \<Rightarrow> bool" where
  "validates sch k v =
     (case sch k of
        None \<Rightarrow> True
      | Some s \<Rightarrow> (case schValidateFunc s of None \<Rightarrow> True | Some f \<Rightarrow> f v))"

definition valid_block :: "pp_block \<Rightarrow> bool" where
  "valid_block b =
     (validates lldPreprocessorSchema ''type'' (pp_type b) \<and>
      list_all (validates lldPreprocessorSchema ''params'') (pp_params b) \<and>
      validates lldPreprocessorSchema ''error_handler'' (pp_error_handler b) \<and>
      validates lldPreprocessorSchema ''error_handler_params'' (pp_error_handler_params b))"

text \<open>A valid configuration: every attribute passes the validation of its schema.\<close>

definition valid_config :: "'a ResourceData_scheme \<Rightarrow> bool" where
  "valid_config d =
     (validates lldCommonSchema ''hostid'' (hostid d) \<and>
      validates lldCommonSchema ''delay'' (delay d) \<and>
      validates lldCommonSchema ''key'' (key d) \<and>
      validates lldCommonSchema ''name'' (name d) \<and>
      list_all valid_block (preprocessor d))"

subsection \<open>The API client\<close>

text \<open>A Go \<^verbatim>\<open>error\<close> value, by its message; a returned \<^verbatim>\<open>nil\<close> is \<open>None\<close>.\<close>

datatype go_error = GoError string

definition errors_New :: "string \<Rightarrow> go_error" where
  "errors_New msg = GoError msg"

text \<open>\<^verbatim>\<open>zabbix.Params\<close>, a \<^verbatim>\<open>map[string]interface{}\<close>; the values this file stores are a
  string and a slice of strings.\<close>

datatype param = PString string | PStrings "string list"

type_synonym Params = "string \<rightharpoonup> param"

text \<open>
  The four methods of \<^verbatim>\<open>*zabbix.API\<close> that the handlers call. The client belongs to
  another package and talks to a server, so each method is a parameter: a function of
  its argument and of the server's state \<open>'w\<close>, giving its results and the new state.
  \<^verbatim>\<open>LLDsCreate\<close> and \<^verbatim>\<open>LLDsUpdate\<close> receive a slice and may write its elements; the
  list they give back is what they left in the slice's array.
\<close>

record ('w, 'x) API =
  LLDsCreate ::
    "'x LLDRule_scheme list \<Rightarrow> 'w \<Rightarrow> (go_error option \<times> 'x LLDRule_scheme list) \<times> 'w"
  LLDsUpdate ::
    "'x LLDRule_scheme list \<Rightarrow> 'w \<Rightarrow> (go_error option \<times> 'x LLDRule_scheme list) \<times> 'w"
  LLDsGet :: "Params \<Rightarrow> 'w \<Rightarrow> ('x LLDRule_scheme list \<times> go_error option) \<times> 'w"
  LLDDeleteByIds :: "string list \<Rightarrow> 'w \<Rightarrow> go_error option \<times> 'w"

text \<open>A call of the client, with its argument.\<close>

datatype 'x api_call =
  LLDsCreate_call "'x LLDRule_scheme list"
| LLDsUpdate_call "'x LLDRule_scheme list"
| LLDsGet_call Params
| LLDDeleteByIds_call "string list"

text \<open>The world outside the handlers: the server's state and the calls made so far, in
  order.\<close>

record ('w, 'x) world =
  calls :: "'x api_call list"
  remote :: 'w

text \<open>
  The callee gets the slice header by value: it can overwrite the elements of the
  caller's slice and cannot change its length. \<open>written\<close> is what the callee left.
\<close>

definition slice_after :: "'a list \<Rightarrow> 'a list \<Rightarrow> 'a list" where
  "slice_after llds written = take (length llds) written @ drop (length written) llds"

definition api_LLDsCreate ::
  "('w, 'x) API \<Rightarrow> 'x LLDRule_scheme list \<Rightarrow> ('w, 'x) world \<Rightarrow>
   (go_error option \<times> 'x LLDRule_scheme list) \<times> ('w, 'x) world" where
  "api_LLDsCreate api llds st =
     (case LLDsCreate api llds (remote st) of
        ((err, written), w') \<Rightarrow>
          ((err, slice_after llds written),
           \<lparr>calls = calls st @ [LLDsCreate_call llds], remote = w'\<rparr>))"

definition api_LLDsUpdate ::
  "('w, 'x) API \<Rightarrow> 'x LLDRule_scheme list \<Rightarrow> ('w, 'x) world \<Rightarrow>
   (go_error option \<times> 'x LLDRule_scheme list) \<times> ('w, 'x) world" where
  "api_LLDsUpdate api llds st =
     (case LLDsUpdate api llds (remote st) of
        ((err, written), w') \<Rightarrow>
          ((err, slice_after llds written),
           \<lparr>calls = calls st @ [LLDsUpdate_call llds], remote = w'\<rparr>))"

definition api_LLDsGet ::
  "('w, 'x) API \<Rightarrow> Params \<Rightarrow> ('w, 'x) world \<Rightarrow>
   ('x LLDRule_scheme list \<times> go_error option) \<times> ('w, 'x) world" where
  "api_LLDsGet api params st =
     (case LLDsGet api params (remote st) of
        (res, w') \<Rightarrow> (res, \<lparr>calls = calls st @ [LLDsGet_call params], remote = w'\<rparr>))"

definition api_LLDDeleteByIds ::
  "('w, 'x) API \<Rightarrow> string list \<Rightarrow> ('w, 'x) world \<Rightarrow> go_error option \<times> ('w, 'x) world" where
  "api_LLDDeleteByIds api ids st =
     (case LLDDeleteByIds api ids (remote st) of
        (err, w') \<Rightarrow> (err, \<lparr>calls = calls st @ [LLDDeleteByIds_call ids], remote = w'\<rparr>))"

subsection \<open>Writing the configuration\<close>

text \<open>
  \<^verbatim>\<open>d.Set(k, v)\<close> for the four string attributes, and for \<^verbatim>\<open>preprocessor\<close>, whose
  value is a list of maps: each map becomes a block, a key the map does not have
  leaving its attribute unset (the computed \<^verbatim>\<open>id\<close> is never there). A value of the
  wrong type under a key makes \<^verbatim>\<open>d.Set\<close> fail; the handlers ignore that error and the
  attribute keeps its value.
\<close>

definition tf_string :: "tfmap \<Rightarrow> string \<Rightarrow> string option" where
  "tf_string m k =
     (case m k of None \<Rightarrow> Some [] | Some (TFString v) \<Rightarrow> Some v | Some (TFList vs) \<Rightarrow> None)"

definition tf_list :: "tfmap \<Rightarrow> string \<Rightarrow> string list option" where
  "tf_list m k =
     (case m k of None \<Rightarrow> Some [] | Some (TFList vs) \<Rightarrow> Some vs | Some (TFString v) \<Rightarrow> None)"

definition block_of_tfmap :: "tfmap \<Rightarrow> pp_block option" where
  "block_of_tfmap m =
     (case (tf_string m ''id'', tf_string m ''type'', tf_list m ''params'',
            tf_string m ''error_handler'', tf_string m ''error_handler_params'') of
        (Some i, Some t, Some ps, Some h, Some hp) \<Rightarrow>
          Some \<lparr>pp_id = i, pp_type = t, pp_params = ps, pp_error_handler = h,
                pp_error_handler_params = hp\<rparr>
      | _ \<Rightarrow> None)"

definition Set_preprocessor ::
  "tfmap list \<Rightarrow> 'a ResourceData_scheme \<Rightarrow> 'a ResourceData_scheme" where
  "Set_preprocessor val d =
     (case those (map block_of_tfmap val) of
        None \<Rightarrow> d
      | Some blocks \<Rightarrow> d\<lparr>preprocessor := blocks\<rparr>)"

subsection \<open>The handlers\<close>

text \<open>\<^verbatim>\<open>LLDHandler\<close>: a function that gets the record and the rule by pointer and may
  change both.\<close>

type_synonym ('a, 'x) LLDHandler =
  "'a ResourceData_scheme \<Rightarrow> 'x LLDRule_scheme \<Rightarrow> 'a ResourceData_scheme \<times> 'x LLDRule_scheme"

text \<open>The query of \<^verbatim>\<open>resourceLLDRead\<close>.\<close>

definition read_query :: "'a ResourceData_scheme \<Rightarrow> Params" where
  "read_query d =
     [''lldids'' \<mapsto> PStrings [Id_of d], ''selectPreprocessing'' \<mapsto> PString ''extend'']"

text \<open>
  Each handler gives the error it returns, the record as it leaves it, and the world.
  \<open>m\<close>, the provider's handle, is the client \<open>api\<close> (the Go code asserts that it
  is one). Create and update build the rule first: where that panics the handler
  panics, before any call of the client.
\<close>

definition resourceLLDRead ::
  "'a ResourceData_scheme \<Rightarrow> ('w, 'x) API \<Rightarrow> ('a, 'x) LLDHandler \<Rightarrow> ('w, 'x) world \<Rightarrow>
   go_error option \<times> 'a ResourceData_scheme \<times> ('w, 'x) world" where
  "resourceLLDRead d api r st =
     (case api_LLDsGet api (read_query d) st of
        ((llds, Some err), st') \<Rightarrow> (Some err, d, st')
      | ((llds, None), st') \<Rightarrow>
          if length llds < 1 then (None, SetId [] d, st')
          else if length llds > 1 then (Some (errors_New ''multiple llds found''), d, st')
          else
            (let lld = llds ! 0;
                 d1 = SetId (ItemID lld) d;
                 d2 = d1\<lparr>hostid := HostID lld\<rparr>;
                 d3 = d2\<lparr>key := Key lld\<rparr>;
                 d4 = d3\<lparr>name := Name lld\<rparr>;
                 d5 = d4\<lparr>delay := Delay lld\<rparr>;
                 d6 = Set_preprocessor (flattenlldPreprocessors lld) d5
             in (None, fst (r d6 lld), st')))"

definition resourceLLDCreate ::
  "'x \<Rightarrow> 'a ResourceData_scheme \<Rightarrow> ('w, 'x) API \<Rightarrow> ('a, 'x) LLDHandler \<Rightarrow>
   ('a, 'x) LLDHandler \<Rightarrow> ('w, 'x) world \<Rightarrow>
   go_panic + (go_error option \<times> 'a ResourceData_scheme \<times> ('w, 'x) world)" where
  "resourceLLDCreate z d api c r st =
     (case buildLLDObject z d of
        Inl p \<Rightarrow> Inl p
      | Inr lld \<Rightarrow>
          (let (d', lld') = c d lld;
               llds = [lld']
           in case api_LLDsCreate api llds st of
                ((Some err, llds'), st') \<Rightarrow> Inr (Some err, d', st')
              | ((None, llds'), st') \<Rightarrow>
                  Inr (resourceLLDRead (SetId (ItemID (llds' ! 0)) d') api r st')))"

definition resourceLLDUpdate ::
  "'x \<Rightarrow> 'a ResourceData_scheme \<Rightarrow> ('w, 'x) API \<Rightarrow> ('a, 'x) LLDHandler \<Rightarrow>
   ('a, 'x) LLDHandler \<Rightarrow> ('w, 'x) world \<Rightarrow>
   go_panic + (go_error option \<times> 'a ResourceData_scheme \<times> ('w, 'x) world)" where
  "resourceLLDUpdate z d api c r st =
     (case buildLLDObject z d of
        Inl p \<Rightarrow> Inl p
      | Inr built \<Rightarrow>
          (let lld = built\<lparr>ItemID := Id_of d\<rparr>;
               (d', lld') = c d lld;
               llds = [lld']
           in case api_LLDsUpdate api llds st of
                ((Some err, llds'), st') \<Rightarrow> Inr (Some err, d', st')
              | ((None, llds'), st') \<Rightarrow> Inr (resourceLLDRead d' api r st')))"

definition resourceLLDDelete ::
  "'a ResourceData_scheme \<Rightarrow> ('w, 'x) API \<Rightarrow> ('w, 'x) world \<Rightarrow>
   go_error option \<times> 'a ResourceData_scheme \<times> ('w, 'x) world" where
  "resourceLLDDelete d api st =
     (case api_LLDDeleteByIds api [Id_of d] st of (err, st') \<Rightarrow> (err, d, st'))"

text \<open>The three wrappers fix the injected handlers and give the function that the
  framework calls with the record and the provider's handle.\<close>

definition lldGetCreateWrapper ::
  "'x \<Rightarrow> ('a, 'x) LLDHandler \<Rightarrow> ('a, 'x) LLDHandler \<Rightarrow>
   'a ResourceData_scheme \<Rightarrow> ('w, 'x) API \<Rightarrow> ('w, 'x) world \<Rightarrow>
   go_panic + (go_error option \<times> 'a ResourceData_scheme \<times> ('w, 'x) world)" where
  "lldGetCreateWrapper z c r = (\<lambda>d m. resourceLLDCreate z d m c r)"

definition lldGetUpdateWrapper ::
  "'x \<Rightarrow> ('a, 'x) LLDHandler \<Rightarrow> ('a, 'x) LLDHandler \<Rightarrow>
   'a ResourceData_scheme \<Rightarrow> ('w, 'x) API \<Rightarrow> ('w, 'x) world \<Rightarrow>
   go_panic + (go_error option \<times> 'a ResourceData_scheme \<times> ('w, 'x) world)" where
  "lldGetUpdateWrapper z c r = (\<lambda>d m. resourceLLDUpdate z d m c r)"

definition lldGetReadWrapper ::
  "('a, 'x) LLDHandler \<Rightarrow>
   'a ResourceData_scheme \<Rightarrow> ('w, 'x) API \<Rightarrow> ('w, 'x) world \<Rightarrow>
   go_error option \<times> 'a ResourceData_scheme \<times> ('w, 'x) world" where
  "lldGetReadWrapper r = (\<lambda>d m. resourceLLDRead d m r)"

subsection \<open>Reference values and concrete inputs\<close>

text \<open>The map that holds the values of a configuration block under the four keys the
  flattener writes.\<close>

definition tfmap_of_block :: "pp_block \<Rightarrow> tfmap" where
  "tfmap_of_block b =
     [''type'' \<mapsto> TFString (pp_type b),
      ''params'' \<mapsto> TFList (pp_params b),
      ''error_handler'' \<mapsto> TFString (pp_error_handler b),
      ''error_handler_params'' \<mapsto> TFString (pp_error_handler_params b)]"

text \<open>The preprocessor that a configuration block stands for on the wire.\<close>

definition preprocessor_of_block :: "pp_block \<Rightarrow> Preprocessor" where
  "preprocessor_of_block b =
     \<lparr>Type = pp_type b, Params = Join (pp_params b) newline,
      ErrorHandler = pp_error_handler b, ErrorHandlerParams = pp_error_handler_params b\<rparr>"

definition params_without_newline :: "'a ResourceData_scheme \<Rightarrow> bool" where
  "params_without_newline d =
     list_all (\<lambda>b. list_all (\<lambda>p. CHR 0x0A \<notin> set p) (pp_params b)) (preprocessor d)"

definition params_present :: "'a ResourceData_scheme \<Rightarrow> bool" where
  "params_present d = list_all (\<lambda>b. pp_params b \<noteq> []) (preprocessor d)"

text \<open>No parameter of the record is the empty string.\<close>

definition no_empty_param :: "'a ResourceData_scheme \<Rightarrow> bool" where
  "no_empty_param d = list_all (\<lambda>b. [] \<notin> set (pp_params b)) (preprocessor d)"

text \<open>The block of the specification's example, and a block that declares no
  \<^verbatim>\<open>params\<close>.\<close>

definition block_a_b :: pp_block where
  "block_a_b =
     \<lparr>pp_id = [], pp_type = ''5'', pp_params = [''a'', ''b''], pp_error_handler = ''0'',
      pp_error_handler_params = []\<rparr>"

definition block_no_params :: pp_block where
  "block_no_params =
     \<lparr>pp_id = [], pp_type = ''5'', pp_params = [], pp_error_handler = ''0'',
      pp_error_handler_params = []\<rparr>"

definition cfg_a_b :: ResourceData where
  "cfg_a_b =
     \<lparr>rd_id = ''7'', hostid = ''10084'', key = ''vfs.fs.discovery'', name = ''Filesystems'',
      delay = ''3600'', preprocessor = [block_a_b]\<rparr>"

definition cfg_no_params :: ResourceData where
  "cfg_no_params = cfg_a_b\<lparr>preprocessor := [block_no_params]\<rparr>"

text \<open>A record whose block has the empty string as its only parameter.\<close>

definition block_empty_param :: pp_block where
  "block_empty_param =
     \<lparr>pp_id = [], pp_type = ''5'', pp_params = [[]], pp_error_handler = ''0'',
      pp_error_handler_params = []\<rparr>"

definition cfg_empty_param :: ResourceData where
  "cfg_empty_param = cfg_a_b\<lparr>preprocessor := [block_empty_param]\<rparr>"

text \<open>The rule of identifier 7 as a server holds it for \<open>cfg_a_b\<close>.\<close>

definition rule_7 :: LLDRule where
  "rule_7 =
     \<lparr>ItemID = ''7'', Key = ''vfs.fs.discovery'', HostID = ''10084'', Name = ''Filesystems'',
      Delay = ''3600'',
      Preprocessors =
        [\<lparr>Type = ''5'', Params = [CHR ''a'', CHR 0x0A, CHR ''b''], ErrorHandler = ''0'',
          ErrorHandlerParams = []\<rparr>]\<rparr>"

text \<open>The rule that \<open>cfg_no_params\<close> is built to.\<close>

definition rule_no_params :: LLDRule where
  "rule_no_params =
     \<lparr>ItemID = [], Key = ''vfs.fs.discovery'', HostID = ''10084'', Name = ''Filesystems'',
      Delay = ''3600'',
      Preprocessors =
        [\<lparr>Type = ''5'', Params = [], ErrorHandler = ''0'', ErrorHandlerParams = []\<rparr>]\<rparr>"

text \<open>A handler that changes nothing.\<close>

definition keep :: "('a, 'x) LLDHandler" where
  "keep d lld = (d, lld)"

text \<open>
  A server that keeps its rules in a list. Creation gives the \<open>k\<close>-th rule ever stored
  the identifier of \<open>k\<close> digits 1 and writes it into the batch; an update replaces the
  stored rule of the same identifier; a query for \<^verbatim>\<open>lldids\<close> gives the stored rules
  with one of these identifiers; deletion drops them.
\<close>

fun assign_ids :: "nat \<Rightarrow> LLDRule list \<Rightarrow> LLDRule list" where
  "assign_ids n [] = []"
| "assign_ids n (x # xs) = x\<lparr>ItemID := replicate (Suc n) (CHR ''1'')\<rparr> # assign_ids (Suc n) xs"

definition list_server :: "(LLDRule list, unit) API" where
  "list_server =
     \<lparr>LLDsCreate = (\<lambda>llds w. ((None, assign_ids (length w) llds), w @ assign_ids (length w) llds)),
      LLDsUpdate = (\<lambda>llds w.
        ((None, llds),
         map (\<lambda>old. case find (\<lambda>u. ItemID u = ItemID old) llds of
                      None \<Rightarrow> old | Some u \<Rightarrow> u) w)),
      LLDsGet = (\<lambda>params w.
        case params ''lldids'' of
          Some (PStrings ids) \<Rightarrow> ((filter (\<lambda>x. ItemID x \<in> set ids) w, None), w)
        | _ \<Rightarrow> ((w, None), w)),
      LLDDeleteByIds = (\<lambda>ids w. (None, filter (\<lambda>x. ItemID x \<notin> set ids) w))\<rparr>"


definition world_of :: "LLDRule list \<Rightarrow> (LLDRule list, unit) world" where
  "world_of rules = \<lparr>calls = [], remote = rules\<rparr>"

section \<open>Properties\<close>

subsection \<open>The loops and the string functions\<close>

lemma pstrarr_loop_ok:
  "i \<le> length params \<Longrightarrow> length acc = length params \<Longrightarrow> None \<notin> set (drop i params) \<Longrightarrow>
   pstrarr_loop params i acc = Inr (take i acc @ map the (drop i params))"
proof (induction params i acc rule: pstrarr_loop.induct)
  case (1 params i acc)
  show ?case
  proof (cases "i < length params")
    case True
    then have d: "drop i params = params ! i # drop (Suc i) params"
      by (simp add: Cons_nth_drop_Suc)
    with "1.prems"(3) obtain v where v: "params ! i = Some v"
      by (cases "params ! i") auto
    from d "1.prems"(3) have rest: "None \<notin> set (drop (Suc i) params)"
      by auto
    from True v have "pstrarr_loop params i acc = pstrarr_loop params (Suc i) (acc[i := v])"
      by (simp add: pstrarr_loop.simps [of params i])
    also have "\<dots> = Inr (take (Suc i) (acc[i := v]) @ map the (drop (Suc i) params))"
      using "1.IH" [OF True v] True "1.prems"(2) rest by simp
    also have "take (Suc i) (acc[i := v]) = take i acc @ [v]"
      using True "1.prems"(2) by (simp add: take_Suc_conv_app_nth)
    finally show ?thesis using d v by simp
  next
    case False
    then have "pstrarr_loop params i acc = Inr acc"
      by (simp add: pstrarr_loop.simps [of params i])
    with False "1.prems" show ?thesis by simp
  qed
qed

lemma pstrarr_loop_panic:
  "None \<in> set (drop i params) \<Longrightarrow> pstrarr_loop params i acc = Inl nil_not_string"
proof (induction params i acc rule: pstrarr_loop.induct)
  case (1 params i acc)
  from "1.prems" have True: "i < length params"
    by (cases "i < length params") auto
  then have d: "drop i params = params ! i # drop (Suc i) params"
    by (simp add: Cons_nth_drop_Suc)
  show ?case
  proof (cases "params ! i")
    case None
    with True show ?thesis
      by (simp add: pstrarr_loop.simps [of params i])
  next
    case (Some v)
    with d "1.prems" have "None \<in> set (drop (Suc i) params)"
      by auto
    with "1.IH" [OF True Some] have "pstrarr_loop params (Suc i) (acc[i := v]) = Inl nil_not_string" .
    with True Some show ?thesis
      by (simp add: pstrarr_loop.simps [of params i])
  qed
qed

lemma interface_of_None: "None \<in> set (map interface_of vs) \<longleftrightarrow> [] \<in> set vs"
  by (induction vs) (auto simp: interface_of_def)

lemma the_interface_of: "[] \<notin> set vs \<Longrightarrow> map (the \<circ> interface_of) vs = vs"
  by (induction vs) (auto simp: interface_of_def)

lemma generate_one_block:
  assumes "i < length (preprocessor d)"
  shows "generate_one d i =
     (if [] \<in> set (pp_params (preprocessor d ! i)) then Inl nil_not_string
      else Inr (preprocessor_of_block (preprocessor d ! i)))"
proof (cases "[] \<in> set (pp_params (preprocessor d ! i))")
  case True
  then have "None \<in> set (drop 0 (map interface_of (pp_params (preprocessor d ! i))))"
    using interface_of_None [of "pp_params (preprocessor d ! i)"] by simp
  then have "pstrarr_loop (map interface_of (pp_params (preprocessor d ! i))) 0 acc = Inl nil_not_string"
    for acc
    by (rule pstrarr_loop_panic)
  with True assms show ?thesis
    by (simp add: generate_one_def Get_pp_params_def)
next
  case False
  then have "None \<notin> set (drop 0 (map interface_of (pp_params (preprocessor d ! i))))"
    using interface_of_None [of "pp_params (preprocessor d ! i)"] by simp
  with False have "pstrarr_loop (map interface_of (pp_params (preprocessor d ! i))) 0
      (replicate (length (pp_params (preprocessor d ! i))) []) = Inr (pp_params (preprocessor d ! i))"
    by (simp add: pstrarr_loop_ok the_interface_of del: drop_0)
  with False assms show ?thesis
    by (simp add: generate_one_def preprocessor_of_block_def Get_pp_params_def
        Get_pp_type_def Get_pp_error_handler_def Get_pp_error_handler_params_def)
qed

lemma generate_loop_ok:
  "i \<le> n \<Longrightarrow> length ps = n \<Longrightarrow> \<forall>j. i \<le> j \<and> j < n \<longrightarrow> generate_one d j = Inr (f j) \<Longrightarrow>
   generate_loop d n i ps = Inr (take i ps @ map f [i..<n])"
proof (induction d n i ps rule: generate_loop.induct)
  case (1 d n i ps)
  show ?case
  proof (cases "i < n")
    case True
    with "1.prems"(3) have g: "generate_one d i = Inr (f i)"
      by simp
    with True have "generate_loop d n i ps = generate_loop d n (Suc i) (ps[i := f i])"
      by (simp add: generate_loop.simps [of d n i])
    also have "\<dots> = Inr (take (Suc i) (ps[i := f i]) @ map f [Suc i..<n])"
      using "1.IH" [OF True g] True "1.prems" by simp
    also have "take (Suc i) (ps[i := f i]) = take i ps @ [f i]"
      using True "1.prems"(2) by (simp add: take_Suc_conv_app_nth)
    finally show ?thesis using True by (simp add: upt_conv_Cons)
  next
    case False
    then have "generate_loop d n i ps = Inr ps"
      by (simp add: generate_loop.simps [of d n i])
    with False "1.prems" show ?thesis by simp
  qed
qed

lemma generate_loop_panic:
  "i \<le> j \<Longrightarrow> j < n \<Longrightarrow> generate_one d j = Inl q \<Longrightarrow>
   \<forall>k p. generate_one d k = Inl p \<longrightarrow> p = q \<Longrightarrow> generate_loop d n i ps = Inl q"
proof (induction d n i ps rule: generate_loop.induct)
  case (1 d n i ps)
  from "1.prems" have True: "i < n" by simp
  show ?case
  proof (cases "generate_one d i")
    case (Inl p)
    with "1.prems"(4) have "p = q" by blast
    with True Inl show ?thesis
      by (simp add: generate_loop.simps [of d n i])
  next
    case (Inr x)
    with "1.prems"(3) have "i \<noteq> j" by auto
    with "1.prems"(1) have "Suc i \<le> j" by simp
    from "1.IH" [OF True Inr this "1.prems"(2,3,4)] True Inr show ?thesis
      by (simp add: generate_loop.simps [of d n i])
  qed
qed

lemma generate_one_panic_value: "generate_one d k = Inl p \<Longrightarrow> p = nil_not_string"
proof (cases "[] \<in> set (map the (Get_pp_params d k)) \<or> None \<in> set (Get_pp_params d k)")
  case True
  assume g: "generate_one d k = Inl p"
  show ?thesis
  proof (cases "None \<in> set (Get_pp_params d k)")
    case True
    then have "pstrarr_loop (Get_pp_params d k) 0 acc = Inl nil_not_string" for acc
      by (simp add: pstrarr_loop_panic)
    with g show ?thesis by (simp add: generate_one_def Let_def)
  next
    case False
    then have "pstrarr_loop (Get_pp_params d k) 0 (replicate (length (Get_pp_params d k)) [])
        = Inr (map the (Get_pp_params d k))"
      by (simp add: pstrarr_loop_ok)
    with g show ?thesis by (simp add: generate_one_def Let_def)
  qed
next
  case False
  assume g: "generate_one d k = Inl p"
  from False have "pstrarr_loop (Get_pp_params d k) 0 (replicate (length (Get_pp_params d k)) [])
        = Inr (map the (Get_pp_params d k))"
    by (simp add: pstrarr_loop_ok)
  with g show ?thesis by (simp add: generate_one_def Let_def)
qed

lemma lldGeneratePreprocessors_ok:
  assumes "no_empty_param d"
  shows "lldGeneratePreprocessors d = Inr (map preprocessor_of_block (preprocessor d))"
proof -
  have one: "generate_one d j = Inr (preprocessor_of_block (preprocessor d ! j))"
    if "j < length (preprocessor d)" for j
    using that assms by (simp add: generate_one_block no_empty_param_def list_all_length)
  have "generate_loop d (length (preprocessor d)) 0
          (replicate (length (preprocessor d)) zero_Preprocessor) =
        Inr (take 0 (replicate (length (preprocessor d)) zero_Preprocessor) @
             map (\<lambda>j. preprocessor_of_block (preprocessor d ! j)) [0..<length (preprocessor d)])"
    using one
    by (intro generate_loop_ok [where f = "\<lambda>j. preprocessor_of_block (preprocessor d ! j)"])
      simp_all
  also have "map (\<lambda>j. preprocessor_of_block (preprocessor d ! j)) [0..<length (preprocessor d)]
      = map preprocessor_of_block (preprocessor d)"
    by (rule nth_equalityI) simp_all
  finally show ?thesis
    by (simp add: lldGeneratePreprocessors_def Get_preprocessor_count_def)
qed

lemma lldGeneratePreprocessors_panic:
  assumes "\<not> no_empty_param d"
  shows "lldGeneratePreprocessors d = Inl nil_not_string"
proof -
  from assms obtain j where j: "j < length (preprocessor d)"
    and e: "[] \<in> set (pp_params (preprocessor d ! j))"
    by (auto simp: no_empty_param_def list_all_length)
  then have "generate_one d j = Inl nil_not_string"
    by (simp add: generate_one_block)
  with j have "generate_loop d (length (preprocessor d)) 0 ps = Inl nil_not_string" for ps
    by (intro generate_loop_panic [of 0 j]) (auto dest: generate_one_panic_value)
  then show ?thesis
    by (simp add: lldGeneratePreprocessors_def Get_preprocessor_count_def)
qed

lemma buildLLDObject_ok:
  "no_empty_param d \<Longrightarrow>
   buildLLDObject z d =
     Inr \<lparr>ItemID = [], Key = key d, HostID = hostid d, Name = name d, Delay = delay d,
          Preprocessors = map preprocessor_of_block (preprocessor d), \<dots> = z\<rparr>"
  by (simp add: buildLLDObject_def lldGeneratePreprocessors_ok)

lemma buildLLDObject_panic:
  "\<not> no_empty_param d \<Longrightarrow> buildLLDObject z d = Inl nil_not_string"
  by (simp add: buildLLDObject_def lldGeneratePreprocessors_panic)

lemma buildLLDObject_Inr:
  "buildLLDObject z d = Inr lld \<Longrightarrow>
   no_empty_param d \<and> Preprocessors lld = map preprocessor_of_block (preprocessor d)"
  by (cases "no_empty_param d") (auto simp: buildLLDObject_ok buildLLDObject_panic)

lemma all_space_Nil: "all_space []"
  by (simp add: all_space.simps [of "[]"])

lemma validates_params: "validates lldPreprocessorSchema ''params'' = StringIsNotWhiteSpace"
  by (rule ext) (simp add: validates_def lldPreprocessorSchema_def schema_of_def)

lemma valid_config_no_empty_param:
  assumes "valid_config d"
  shows "no_empty_param d"
proof -
  have "[] \<notin> set (pp_params b)" if "b \<in> set (preprocessor d)" for b
  proof
    assume e: "[] \<in> set (pp_params b)"
    from assms that have "valid_block b"
      by (simp add: valid_config_def list_all_iff)
    then have "list_all StringIsNotWhiteSpace (pp_params b)"
      by (simp add: valid_block_def validates_params)
    with e have "StringIsNotWhiteSpace []"
      by (simp add: list_all_iff)
    then show False
      by (simp add: StringIsNotWhiteSpace_def all_space_Nil)
  qed
  then show ?thesis
    by (simp add: no_empty_param_def list_all_iff)
qed

lemma flatten_loop_eq:
  "i \<le> length ps \<Longrightarrow> length val = length ps \<Longrightarrow>
   flatten_loop ps i val = take i val @ map flatten_one (drop i ps)"
proof (induction ps i val rule: flatten_loop.induct)
  case (1 ps i val)
  show ?case
  proof (cases "i < length ps")
    case True
    then have "flatten_loop ps i val = flatten_loop ps (Suc i) (val[i := flatten_one (ps ! i)])"
      by (simp add: flatten_loop.simps [of ps i])
    also have "\<dots> = take (Suc i) (val[i := flatten_one (ps ! i)]) @ map flatten_one (drop (Suc i) ps)"
      using "1.IH" [OF True] True "1.prems" by simp
    also have "take (Suc i) (val[i := flatten_one (ps ! i)]) = take i val @ [flatten_one (ps ! i)]"
      using True "1.prems" by (simp add: take_Suc_conv_app_nth)
    finally show ?thesis using True by (simp add: Cons_nth_drop_Suc [symmetric])
  next
    case False
    then have "flatten_loop ps i val = val"
      by (simp add: flatten_loop.simps [of ps i])
    with False "1.prems" show ?thesis by simp
  qed
qed

lemma flattenlldPreprocessors_map:
  "flattenlldPreprocessors lld = map flatten_one (Preprocessors lld)"
  by (simp add: flattenlldPreprocessors_def flatten_loop_eq)

lemma newline_not_Nil: "newline \<noteq> []"
  by (simp add: newline_def)

lemma HasPrefix_newline: "HasPrefix (c # cs) newline = (c = CHR 0x0A)"
  by (simp add: newline_def)

lemma Index_newline_none: "CHR 0x0A \<notin> set s \<Longrightarrow> Index s newline = None"
  by (induction s) (auto simp: HasPrefix_newline newline_not_Nil)

lemma Index_newline_first:
  "CHR 0x0A \<notin> set p \<Longrightarrow> Index (p @ newline @ rest) newline = Some (length p)"
proof (induction p)
  case Nil
  show ?case by (simp add: newline_def)
next
  case (Cons c p)
  then show ?case by (auto simp: HasPrefix_newline)
qed

lemma Split_no_newline: "CHR 0x0A \<notin> set s \<Longrightarrow> Split s newline = [s]"
  by (simp add: Split.simps [of s newline] Index_newline_none newline_not_Nil)

lemma Split_first:
  "CHR 0x0A \<notin> set p \<Longrightarrow> Split (p @ newline @ rest) newline = p # Split rest newline"
proof -
  assume "CHR 0x0A \<notin> set p"
  then have "Index (p @ newline @ rest) newline = Some (length p)"
    by (rule Index_newline_first)
  then have "Split (p @ newline @ rest) newline =
      take (length p) (p @ newline @ rest)
        # Split (drop (length p + length newline) (p @ newline @ rest)) newline"
    by (simp add: Split.simps [of "p @ newline @ rest" newline] newline_not_Nil)
  then show ?thesis by simp
qed

lemma Split_Join:
  "ps \<noteq> [] \<Longrightarrow> \<forall>p\<in>set ps. CHR 0x0A \<notin> set p \<Longrightarrow> Split (Join ps newline) newline = ps"
proof (induction ps newline rule: Join.induct)
  case 1
  then show ?case by simp
next
  case (2 x)
  then show ?case by (simp add: Split_no_newline)
next
  case (3 x y ys)
  then show ?case by (simp add: Split_first)
qed

lemma Split_newline_not_Nil: "Split s newline \<noteq> []"
  by (simp add: Split.simps [of s newline] newline_not_Nil split: option.splits)

lemma Split_empty: "Split [] newline = [[]]"
  by (simp add: Split.simps [of "[]" newline] newline_not_Nil)

lemma flatten_one_block:
  assumes "pp_params b \<noteq> []" and "\<forall>p\<in>set (pp_params b). CHR 0x0A \<notin> set p"
  shows "flatten_one (preprocessor_of_block b) = tfmap_of_block b"
  using assms by (simp add: flatten_one_def preprocessor_of_block_def tfmap_of_block_def Split_Join)

subsection \<open>The concrete records\<close>

lemma strip_rune_other_head:
  "[] \<notin> set runes \<Longrightarrow> c \<notin> hd ` set runes \<Longrightarrow> strip_rune runes (c # cs) = None"
proof (induction runes)
  case Nil
  show ?case by simp
next
  case (Cons r runes)
  then obtain x xs where "r = x # xs" and "x \<noteq> c"
    by (cases r) auto
  with Cons show ?case by simp
qed

lemma not_space_head:
  "c \<notin> hd ` set space_runes \<Longrightarrow> StringIsNotWhiteSpace (c # cs)"
proof -
  assume "c \<notin> hd ` set space_runes"
  moreover have "[] \<notin> set space_runes"
    by (simp add: space_runes_def)
  ultimately have "strip_rune space_runes (c # cs) = None"
    by (rule strip_rune_other_head [rotated])
  then show ?thesis
    by (simp add: StringIsNotWhiteSpace_def all_space.simps [of "c # cs"])
qed


lemma valid_cfg_a_b: "valid_config cfg_a_b"
  by (simp add: valid_config_def valid_block_def validates_def lldCommonSchema_def
      lldPreprocessorSchema_def schema_of_def StringMatch_numeric_def not_space_head
      space_runes_def cfg_a_b_def block_a_b_def)

lemma valid_cfg_no_params: "valid_config cfg_no_params"
  by (simp add: valid_config_def valid_block_def validates_def lldCommonSchema_def
      lldPreprocessorSchema_def schema_of_def StringMatch_numeric_def not_space_head
      space_runes_def cfg_no_params_def cfg_a_b_def block_no_params_def)

lemma build_cfg_a_b: "buildLLDObject () cfg_a_b = Inr (rule_7\<lparr>ItemID := []\<rparr>)"
proof -
  have "no_empty_param cfg_a_b"
    by (simp add: no_empty_param_def cfg_a_b_def block_a_b_def)
  then show ?thesis
    by (simp add: buildLLDObject_ok preprocessor_of_block_def cfg_a_b_def block_a_b_def
        rule_7_def newline_def)
qed

lemma build_cfg_no_params: "buildLLDObject () cfg_no_params = Inr rule_no_params"
proof -
  have "no_empty_param cfg_no_params"
    by (simp add: no_empty_param_def cfg_no_params_def cfg_a_b_def block_no_params_def)
  then show ?thesis
    by (simp add: buildLLDObject_ok preprocessor_of_block_def cfg_no_params_def cfg_a_b_def
        block_no_params_def rule_no_params_def)
qed


lemma Split_a_b: "Split [CHR ''a'', CHR 0x0A, CHR ''b''] newline = [''a'', ''b'']"
  by (simp add: newline_def Split.simps)

subsection \<open>Building, then flattening\<close>

text \<open>
  Claim C1, as amended. For every valid configuration record in which each preprocessor
  block has at least one parameter and no parameter contains the newline character,
  \<open>buildLLDObject\<close> gives a rule, and flattening that rule gives, block by block and in
  the order of the configuration, the block's own type, params list, error\_handler
  and error\_handler\_params; on the wire each params list is its elements joined by
  newlines. The example block of type 5 with params a, b is the witness: its wire
  string is a, newline, b and it flattens back to a, b.
\<close>

theorem flatten_build_roundtrip:
  assumes "valid_config d" and "params_present d" and "params_without_newline d"
  shows "\<exists>lld. buildLLDObject z d = Inr lld \<and>
           flattenlldPreprocessors lld = map tfmap_of_block (preprocessor d) \<and>
           map Params (Preprocessors lld) =
             map (\<lambda>b. Join (pp_params b) newline) (preprocessor d)"
proof -
  from assms(1) have "no_empty_param d"
    by (rule valid_config_no_empty_param)
  then have b: "buildLLDObject z d =
      Inr \<lparr>ItemID = [], Key = key d, HostID = hostid d, Name = name d, Delay = delay d,
           Preprocessors = map preprocessor_of_block (preprocessor d), \<dots> = z\<rparr>"
    by (rule buildLLDObject_ok)
  have "flatten_one (preprocessor_of_block b) = tfmap_of_block b"
    if "b \<in> set (preprocessor d)" for b
  proof (rule flatten_one_block)
    from assms(2) that show "pp_params b \<noteq> []"
      by (simp add: params_present_def list_all_iff)
    from assms(3) that show "\<forall>p\<in>set (pp_params b). CHR 0x0A \<notin> set p"
      by (simp add: params_without_newline_def list_all_iff)
  qed
  then have "flattenlldPreprocessors
      \<lparr>ItemID = [], Key = key d, HostID = hostid d, Name = name d, Delay = delay d,
       Preprocessors = map preprocessor_of_block (preprocessor d), \<dots> = z\<rparr>
      = map tfmap_of_block (preprocessor d)"
    by (simp add: flattenlldPreprocessors_map)
  with b show ?thesis
    by (simp add: preprocessor_of_block_def)
qed

text \<open>The example of the specification: a valid record that satisfies the
  hypotheses, and the rule it is built to.\<close>

theorem flatten_build_roundtrip_witness:
  "valid_config cfg_a_b \<and> params_present cfg_a_b \<and> params_without_newline cfg_a_b \<and>
   buildLLDObject () cfg_a_b = Inr (rule_7\<lparr>ItemID := []\<rparr>) \<and>
   flattenlldPreprocessors (rule_7\<lparr>ItemID := []\<rparr>) =
     [[''type'' \<mapsto> TFString ''5'', ''params'' \<mapsto> TFList [''a'', ''b''],
       ''error_handler'' \<mapsto> TFString ''0'', ''error_handler_params'' \<mapsto> TFString []]] \<and>
   map Params (Preprocessors (rule_7\<lparr>ItemID := []\<rparr>)) = [[CHR ''a'', CHR 0x0A, CHR ''b'']]"
proof -
  have p: "params_present cfg_a_b"
    by (simp add: params_present_def cfg_a_b_def block_a_b_def)
  have n: "params_without_newline cfg_a_b"
    by (simp add: params_without_newline_def cfg_a_b_def block_a_b_def)
  from flatten_build_roundtrip [OF valid_cfg_a_b p n, of "()"]
  have "flattenlldPreprocessors (rule_7\<lparr>ItemID := []\<rparr>) = map tfmap_of_block (preprocessor cfg_a_b)"
    and "map Params (Preprocessors (rule_7\<lparr>ItemID := []\<rparr>)) =
           map (\<lambda>b. Join (pp_params b) newline) (preprocessor cfg_a_b)"
    by (simp_all add: build_cfg_a_b)
  then show ?thesis
    using valid_cfg_a_b p n build_cfg_a_b
    by (simp add: cfg_a_b_def block_a_b_def tfmap_of_block_def newline_def)
qed

text \<open>
  Claim C1 as it is written asks only for parameters without a newline. A valid record
  whose block declares no \<^verbatim>\<open>params\<close> has none, and does not come back: the empty list
  is joined to the empty string, which splits into the list of one empty string.
\<close>

theorem roundtrip_empty_params_counterexample:
  "valid_config cfg_no_params \<and> params_without_newline cfg_no_params \<and>
   buildLLDObject () cfg_no_params = Inr rule_no_params \<and>
   flattenlldPreprocessors rule_no_params \<noteq> map tfmap_of_block (preprocessor cfg_no_params)"
proof -
  have n: "params_without_newline cfg_no_params"
    by (simp add: params_without_newline_def cfg_no_params_def cfg_a_b_def block_no_params_def)
  have "(flattenlldPreprocessors rule_no_params ! 0) ''params'' = Some (TFList [[]])"
    by (simp add: flattenlldPreprocessors_map flatten_one_def Split_empty rule_no_params_def)
  moreover have "(map tfmap_of_block (preprocessor cfg_no_params) ! 0) ''params'' = Some (TFList [])"
    by (simp add: tfmap_of_block_def cfg_no_params_def cfg_a_b_def block_no_params_def)
  ultimately have "flattenlldPreprocessors rule_no_params
     \<noteq> map tfmap_of_block (preprocessor cfg_no_params)"
    by auto
  with valid_cfg_no_params n build_cfg_no_params show ?thesis by simp
qed

subsection \<open>The flattener never writes an empty params list\<close>

text \<open>
  Claim C9. For every rule, the map that \<open>flattenlldPreprocessors\<close> writes for
  preprocessor \<open>i\<close> holds under \<^verbatim>\<open>params\<close> the split of the wire string, a list with
  at least one element. A block with an empty params list is built, without a panic
  of its own, to the empty wire string, and in every rule that \<open>buildLLDObject\<close> gives
  it flattens to the list whose only element is the empty string; \<open>buildLLDObject\<close>
  gives a rule whenever no parameter of the record is the empty string.
\<close>

theorem flatten_params_never_empty:
  "(\<forall>i < length (Preprocessors lld).
      (flattenlldPreprocessors lld ! i) ''params''
        = Some (TFList (Split (Params (Preprocessors lld ! i)) newline)) \<and>
      Split (Params (Preprocessors lld ! i)) newline \<noteq> []) \<and>
   (\<forall>i < length (preprocessor d). pp_params (preprocessor d ! i) = [] \<longrightarrow>
      generate_one d i =
        Inr \<lparr>Type = pp_type (preprocessor d ! i), Params = [],
             ErrorHandler = pp_error_handler (preprocessor d ! i),
             ErrorHandlerParams = pp_error_handler_params (preprocessor d ! i)\<rparr> \<and>
      (\<forall>built. buildLLDObject z d = Inr built \<longrightarrow>
         Params (Preprocessors built ! i) = [] \<and>
         (flattenlldPreprocessors built ! i) ''params'' = Some (TFList [[]]))) \<and>
   (no_empty_param d \<longrightarrow> (\<exists>built. buildLLDObject z d = Inr built))"
proof (intro conjI allI impI)
  fix i
  assume "i < length (Preprocessors lld)"
  then show "(flattenlldPreprocessors lld ! i) ''params''
        = Some (TFList (Split (Params (Preprocessors lld ! i)) newline))"
    by (simp add: flattenlldPreprocessors_map flatten_one_def)
  show "Split (Params (Preprocessors lld ! i)) newline \<noteq> []"
    by (rule Split_newline_not_Nil)
next
  fix i
  assume i: "i < length (preprocessor d)" and e: "pp_params (preprocessor d ! i) = []"
  then show "generate_one d i =
        Inr \<lparr>Type = pp_type (preprocessor d ! i), Params = [],
             ErrorHandler = pp_error_handler (preprocessor d ! i),
             ErrorHandlerParams = pp_error_handler_params (preprocessor d ! i)\<rparr>"
    by (simp add: generate_one_block preprocessor_of_block_def)
  fix built
  assume "buildLLDObject z d = Inr built"
  then have p: "Preprocessors built = map preprocessor_of_block (preprocessor d)"
    by (simp add: buildLLDObject_Inr)
  with i e show "Params (Preprocessors built ! i) = []"
    by (simp add: preprocessor_of_block_def)
  from p i e show "(flattenlldPreprocessors built ! i) ''params'' = Some (TFList [[]])"
    by (simp add: flattenlldPreprocessors_map flatten_one_def preprocessor_of_block_def
        Split_empty)
next
  assume "no_empty_param d"
  then show "\<exists>built. buildLLDObject z d = Inr built"
    by (simp add: buildLLDObject_ok)
qed

theorem flatten_params_never_empty_witness:
  "(0::nat) < length (Preprocessors rule_7) \<and>
   (flattenlldPreprocessors rule_7 ! 0) ''params'' = Some (TFList [''a'', ''b'']) \<and>
   0 < length (preprocessor cfg_no_params) \<and> pp_params (preprocessor cfg_no_params ! 0) = [] \<and>
   buildLLDObject () cfg_no_params = Inr rule_no_params \<and>
   Params (Preprocessors rule_no_params ! 0) = [] \<and>
   (flattenlldPreprocessors rule_no_params ! 0) ''params'' = Some (TFList [[]]) \<and>
   no_empty_param cfg_no_params"
proof -
  have a: "(0::nat) < length (Preprocessors rule_7)"
    by (simp add: rule_7_def)
  have b: "0 < length (preprocessor cfg_no_params)" "pp_params (preprocessor cfg_no_params ! 0) = []"
    by (simp_all add: cfg_no_params_def cfg_a_b_def block_no_params_def)
  have s: "Split (Params (Preprocessors rule_7 ! 0)) newline = [''a'', ''b'']"
    by (simp add: rule_7_def Split_a_b)
  have n: "no_empty_param cfg_no_params"
    by (simp add: no_empty_param_def cfg_no_params_def cfg_a_b_def block_no_params_def)
  from flatten_params_never_empty [of rule_7 cfg_no_params "()"] a b s build_cfg_no_params n
  show ?thesis
    by simp
qed

subsection \<open>Count and position\<close>

text \<open>
  Claim C10, as amended. For every configuration record none of whose parameters is the
  empty string (every valid record is one), \<open>lldGeneratePreprocessors\<close> gives as many
  preprocessors as the record's \<^verbatim>\<open>preprocessor.#\<close>, entry \<open>i\<close> made of the fields of
  block \<open>i\<close>; and, without any condition, \<open>flattenlldPreprocessors\<close> gives one map for
  each preprocessor of the rule, map \<open>i\<close> made of the fields of preprocessor \<open>i\<close>.
\<close>

theorem build_flatten_count_position:
  "(no_empty_param d \<longrightarrow>
      (\<exists>ps. lldGeneratePreprocessors d = Inr ps \<and>
            length ps = Get_preprocessor_count d \<and>
            (\<forall>i < Get_preprocessor_count d.
               ps ! i =
                 \<lparr>Type = pp_type (preprocessor d ! i),
                  Params = Join (pp_params (preprocessor d ! i)) newline,
                  ErrorHandler = pp_error_handler (preprocessor d ! i),
                  ErrorHandlerParams = pp_error_handler_params (preprocessor d ! i)\<rparr>))) \<and>
   length (flattenlldPreprocessors lld) = length (Preprocessors lld) \<and>
   (\<forall>i < length (Preprocessors lld).
      flattenlldPreprocessors lld ! i =
        [''type'' \<mapsto> TFString (Type (Preprocessors lld ! i)),
         ''params'' \<mapsto> TFList (Split (Params (Preprocessors lld ! i)) newline),
         ''error_handler'' \<mapsto> TFString (ErrorHandler (Preprocessors lld ! i)),
         ''error_handler_params'' \<mapsto> TFString (ErrorHandlerParams (Preprocessors lld ! i))])"
  by (simp add: lldGeneratePreprocessors_ok flattenlldPreprocessors_map
      Get_preprocessor_count_def preprocessor_of_block_def flatten_one_def)

theorem build_flatten_count_position_witness:
  "no_empty_param cfg_a_b \<and> (0::nat) < Get_preprocessor_count cfg_a_b \<and>
   lldGeneratePreprocessors cfg_a_b =
     Inr [\<lparr>Type = ''5'', Params = [CHR ''a'', CHR 0x0A, CHR ''b''], ErrorHandler = ''0'',
           ErrorHandlerParams = []\<rparr>] \<and>
   0 < length (Preprocessors rule_7) \<and>
   flattenlldPreprocessors rule_7 =
     [[''type'' \<mapsto> TFString ''5'', ''params'' \<mapsto> TFList [''a'', ''b''],
       ''error_handler'' \<mapsto> TFString ''0'', ''error_handler_params'' \<mapsto> TFString []]]"
proof -
  have n: "no_empty_param cfg_a_b"
    by (simp add: no_empty_param_def cfg_a_b_def block_a_b_def)
  have a: "Get_preprocessor_count cfg_a_b = 1"
    by (simp add: Get_preprocessor_count_def cfg_a_b_def)
  have b: "length (Preprocessors rule_7) = 1"
    by (simp add: rule_7_def)
  have s: "Split (Params (Preprocessors rule_7 ! 0)) newline = [''a'', ''b'']"
    by (simp add: rule_7_def Split_a_b)
  have g: "length xs = 1 \<Longrightarrow> xs ! 0 = x \<Longrightarrow> xs = [x]" for xs :: "'a list" and x
    by (cases xs) auto
  from build_flatten_count_position [of cfg_a_b rule_7] n a b
  obtain ps where ps: "lldGeneratePreprocessors cfg_a_b = Inr ps" and "length ps = 1"
    and "ps ! 0 =
        \<lparr>Type = pp_type (preprocessor cfg_a_b ! 0),
         Params = Join (pp_params (preprocessor cfg_a_b ! 0)) newline,
         ErrorHandler = pp_error_handler (preprocessor cfg_a_b ! 0),
         ErrorHandlerParams = pp_error_handler_params (preprocessor cfg_a_b ! 0)\<rparr>"
    and "length (flattenlldPreprocessors rule_7) = 1"
    and "flattenlldPreprocessors rule_7 ! 0 =
        [''type'' \<mapsto> TFString (Type (Preprocessors rule_7 ! 0)),
         ''params'' \<mapsto> TFList (Split (Params (Preprocessors rule_7 ! 0)) newline),
         ''error_handler'' \<mapsto> TFString (ErrorHandler (Preprocessors rule_7 ! 0)),
         ''error_handler_params'' \<mapsto> TFString (ErrorHandlerParams (Preprocessors rule_7 ! 0))]"
    by auto
  then have "ps =
        [\<lparr>Type = pp_type (preprocessor cfg_a_b ! 0),
         Params = Join (pp_params (preprocessor cfg_a_b ! 0)) newline,
         ErrorHandler = pp_error_handler (preprocessor cfg_a_b ! 0),
         ErrorHandlerParams = pp_error_handler_params (preprocessor cfg_a_b ! 0)\<rparr>]"
    and "flattenlldPreprocessors rule_7 =
        [[''type'' \<mapsto> TFString (Type (Preprocessors rule_7 ! 0)),
         ''params'' \<mapsto> TFList (Split (Params (Preprocessors rule_7 ! 0)) newline),
         ''error_handler'' \<mapsto> TFString (ErrorHandler (Preprocessors rule_7 ! 0)),
         ''error_handler_params'' \<mapsto> TFString (ErrorHandlerParams (Preprocessors rule_7 ! 0))]]"
    by (simp_all add: g)
  with ps n a b s show ?thesis
    by (simp add: cfg_a_b_def block_a_b_def rule_7_def newline_def)
qed

text \<open>
  Claim C10 as it is written has no condition. The record whose one block has the empty
  string as its only parameter declares one preprocessor and gets none: the element is
  read as \<^verbatim>\<open>nil\<close> and the assertion \<^verbatim>\<open>params[i].(string)\<close> panics.
\<close>

theorem build_panics_on_empty_param_counterexample:
  "Get_preprocessor_count cfg_empty_param = 1 \<and>
   lldGeneratePreprocessors cfg_empty_param =
     Inl (Panic ''interface conversion: interface {} is nil, not string'')"
proof -
  have "\<not> no_empty_param cfg_empty_param"
    by (simp add: no_empty_param_def cfg_empty_param_def cfg_a_b_def block_empty_param_def)
  then have "lldGeneratePreprocessors cfg_empty_param = Inl nil_not_string"
    by (rule lldGeneratePreprocessors_panic)
  then show ?thesis
    by (simp add: nil_not_string_def Get_preprocessor_count_def cfg_empty_param_def)
qed

subsection \<open>The handlers, step by step\<close>

lemma resourceLLDRead_world:
  "snd (snd (resourceLLDRead d api r st)) =
     \<lparr>calls = calls st @ [LLDsGet_call (read_query d)],
      remote = snd (LLDsGet api (read_query d) (remote st))\<rparr>"
  by (simp add: resourceLLDRead_def api_LLDsGet_def Let_def
      split: prod.splits option.splits)





lemma resourceLLDRead_cases:
  assumes "fst (LLDsGet api (read_query d) (remote st)) = (llds, err)"
  shows "fst (resourceLLDRead d api r st) =
           (case err of Some e \<Rightarrow> Some e
            | None \<Rightarrow> if 2 \<le> length llds then Some (errors_New ''multiple llds found'') else None)"
    and "err \<noteq> None \<or> 2 \<le> length llds \<Longrightarrow> fst (snd (resourceLLDRead d api r st)) = d"
    and "err = None \<Longrightarrow> llds = [] \<Longrightarrow> fst (snd (resourceLLDRead d api r st)) = SetId [] d"
  using assms
  by (auto simp add: resourceLLDRead_def api_LLDsGet_def Let_def
      split: prod.splits option.splits)

subsection \<open>Read\<close>

text \<open>
  Claim C2. When the query of \<open>resourceLLDRead\<close> succeeds with no rule, the handler
  returns no error and leaves the record as it was except for the identifier, which
  is now the empty string.
\<close>

theorem read_zero_matches:
  assumes "fst (LLDsGet api (read_query d) (remote st)) = ([], None)"
  shows "fst (resourceLLDRead d api r st) = None \<and>
         fst (snd (resourceLLDRead d api r st)) = d\<lparr>rd_id := []\<rparr>"
  using resourceLLDRead_cases(1,3) [OF assms, of r] by (simp add: SetId_def)

theorem read_zero_matches_witness:
  "fst (LLDsGet list_server (read_query cfg_a_b) (remote (world_of []))) = ([], None) \<and>
   fst (resourceLLDRead cfg_a_b list_server keep (world_of [])) = None \<and>
   fst (snd (resourceLLDRead cfg_a_b list_server keep (world_of []))) = cfg_a_b\<lparr>rd_id := []\<rparr> \<and>
   rd_id cfg_a_b = ''7''"
proof -
  have h: "fst (LLDsGet list_server (read_query cfg_a_b) (remote (world_of []))) = ([], None)"
    by (simp add: list_server_def read_query_def world_of_def)
  from read_zero_matches [OF h, of keep] h show ?thesis
    by (simp add: cfg_a_b_def)
qed

text \<open>
  Claim C3. When the query of \<open>resourceLLDRead\<close> succeeds with two or more rules, the
  handler returns the error "multiple llds found" and leaves the whole record, the
  identifier included, as it was.
\<close>

theorem read_multiple_matches:
  assumes "fst (LLDsGet api (read_query d) (remote st)) = (llds, None)"
    and "2 \<le> length llds"
  shows "fst (resourceLLDRead d api r st) = Some (errors_New ''multiple llds found'') \<and>
         fst (snd (resourceLLDRead d api r st)) = d"
  using resourceLLDRead_cases(1,2) [OF assms(1), of r] assms(2) by simp

theorem read_multiple_matches_witness:
  "fst (LLDsGet list_server (read_query cfg_a_b) (remote (world_of [rule_7, rule_7])))
     = ([rule_7, rule_7], None) \<and>
   (2::nat) \<le> length [rule_7, rule_7] \<and>
   fst (resourceLLDRead cfg_a_b list_server keep (world_of [rule_7, rule_7]))
     = Some (GoError ''multiple llds found'') \<and>
   fst (snd (resourceLLDRead cfg_a_b list_server keep (world_of [rule_7, rule_7]))) = cfg_a_b"
proof -
  have h: "fst (LLDsGet list_server (read_query cfg_a_b) (remote (world_of [rule_7, rule_7])))
     = ([rule_7, rule_7], None)"
    by (simp add: list_server_def read_query_def world_of_def Id_of_def cfg_a_b_def rule_7_def)
  have l: "(2::nat) \<le> length [rule_7, rule_7]"
    by simp
  from read_multiple_matches [OF h l, of keep] h show ?thesis
    by (simp add: errors_New_def)
qed

text \<open>
  Claim C6, as amended. Every call of \<open>resourceLLDRead\<close> makes exactly one call of the
  client, the query whose parameters are the list of the record's identifier under
  the key \<^verbatim>\<open>lldids\<close> and the string \<^verbatim>\<open>extend\<close> under \<^verbatim>\<open>selectPreprocessing\<close>.
\<close>

theorem read_query_parameters:
  "calls (snd (snd (resourceLLDRead d api r st))) =
     calls st @ [LLDsGet_call [''lldids'' \<mapsto> PStrings [rd_id d],
                               ''selectPreprocessing'' \<mapsto> PString ''extend'']]"
  by (simp add: resourceLLDRead_world read_query_def Id_of_def)

text \<open>Claim C6 as it is written names the key \<^verbatim>\<open>ids\<close>: the read of the rule of
  identifier 7 does not make that query.\<close>

theorem read_query_key_counterexample:
  "calls (snd (snd (resourceLLDRead cfg_a_b list_server keep (world_of [rule_7])))) \<noteq>
     [LLDsGet_call [''ids'' \<mapsto> PStrings [''7''],
                    ''selectPreprocessing'' \<mapsto> PString ''extend'']]"
proof
  assume "calls (snd (snd (resourceLLDRead cfg_a_b list_server keep (world_of [rule_7])))) =
     [LLDsGet_call [''ids'' \<mapsto> PStrings [''7''],
                    ''selectPreprocessing'' \<mapsto> PString ''extend'']]"
  then have "read_query cfg_a_b =
      [''ids'' \<mapsto> PStrings [''7''], ''selectPreprocessing'' \<mapsto> PString ''extend'']"
    by (simp add: resourceLLDRead_world world_of_def)
  then have "read_query cfg_a_b ''ids'' =
      [''ids'' \<mapsto> PStrings [''7''], ''selectPreprocessing'' \<mapsto> PString ''extend''] ''ids''"
    by simp
  then show False
    by (simp add: read_query_def)
qed

subsection \<open>Delete\<close>

text \<open>
  Claim C7. \<open>resourceLLDDelete\<close> makes one call of the client, the deletion of the
  list whose only element is the record's identifier, and returns what that call
  returns, an error or none, unchanged; the record is left as it was.
\<close>

theorem delete_submits_identifier:
  "resourceLLDDelete d api st =
     (fst (LLDDeleteByIds api [rd_id d] (remote st)), d,
      \<lparr>calls = calls st @ [LLDDeleteByIds_call [rd_id d]],
       remote = snd (LLDDeleteByIds api [rd_id d] (remote st))\<rparr>)"
  by (simp add: resourceLLDDelete_def api_LLDDeleteByIds_def Id_of_def split: prod.splits)

subsection \<open>Create\<close>




subsection \<open>Update\<close>





end
